theory Spec2Isabelle
  imports Complex_Main "HOL-Library.Stream"
begin

section \<open>Data model of \<^verbatim>\<open>SnakeGame.js\<close>\<close>

text \<open>
  A grid cell is the JavaScript object \<^verbatim>\<open>{ x, y }\<close>. The coordinates are JavaScript
  numbers that only ever hold small integers (sums of grid coordinates and unit steps),
  so they are modelled as \<open>int\<close>. A direction is an object of the same shape.
\<close>

record cell =
  x :: int
  y :: int

definition GRID_SIZE :: int where
  "GRID_SIZE = 16"

definition INITIAL_SNAKE :: "cell list" where
  "INITIAL_SNAKE = [\<lparr>x = 8, y = 8\<rparr>, \<lparr>x = 7, y = 8\<rparr>, \<lparr>x = 6, y = 8\<rparr>]"

definition INITIAL_DIRECTION :: cell where
  "INITIAL_DIRECTION = \<lparr>x = 1, y = 0\<rparr>"

text \<open>
  The React state hooks of the component. The refs \<^verbatim>\<open>snakeRef\<close> and
  \<^verbatim>\<open>directionRef\<close> are reassigned to \<open>snake\<close> and \<open>direction\<close> on every render,
  and every handler runs to completion and is followed by a render before the next event is
  delivered, so a handler reads through them the fields of the state it starts from.
\<close>

record state =
  snake :: "cell list"
  direction :: cell
  food :: cell
  score :: int
  gameOver :: bool
  moveTick :: int

text \<open>
  The movement effect returns nothing; the tag names the branch it took, with the names of
  section 4.2 of the specification: the early return (\<open>Noop\<close>), the collision branch
  (\<open>Crashed\<close>), the food branch (\<open>Ate\<close>) and the \<^verbatim>\<open>pop\<close> branch (\<open>Moved\<close>).
\<close>

datatype TransitionResult = Moved | Ate | Crashed | Noop

text \<open>\<^verbatim>\<open>newSnake[0].x\<close> on an empty array reads a property of \<^verbatim>\<open>undefined\<close>.\<close>

datatype error = TypeError

section \<open>Food placement\<close>

text \<open>
  \<^verbatim>\<open>Math.random\<close> is modelled by the stream of the values its future calls return, each in
  \<open>[0, 1)\<close>. Multiplying a double by 16 is exact, so \<^verbatim>\<open>Math.floor(Math.random() * GRID_SIZE)\<close>
  is the floor of the real product. The \<^verbatim>\<open>while (true)\<close> loop may run forever: the
  function is partial, and \<open>None\<close> is the run that never returns.
\<close>

definition random_source :: "real stream \<Rightarrow> bool" where
  "random_source rnd \<longleftrightarrow> (\<forall>r \<in> sset rnd. 0 \<le> r \<and> r < 1)"

partial_function (option) generateFood :: "real stream \<Rightarrow> cell list \<Rightarrow> cell option" where
  "generateFood rnd snakeArr =
     (let newFood = \<lparr>x = \<lfloor>shd rnd * of_int GRID_SIZE\<rfloor>,
                      y = \<lfloor>shd (stl rnd) * of_int GRID_SIZE\<rfloor>\<rparr>
      in if \<not> list_ex (\<lambda>seg. x seg = x newFood \<and> y seg = y newFood) snakeArr
         then Some newFood
         else generateFood (stl (stl rnd)) snakeArr)"

text \<open>The candidate drawn by the \<open>k\<close>-th iteration of the loop (counted from 0).\<close>

definition candidate :: "real stream \<Rightarrow> nat \<Rightarrow> cell" where
  "candidate rnd k =
     \<lparr>x = \<lfloor>shd (sdrop (2 * k) rnd) * of_int GRID_SIZE\<rfloor>,
      y = \<lfloor>shd (stl (sdrop (2 * k) rnd)) * of_int GRID_SIZE\<rfloor>\<rparr>"

definition in_grid :: "cell \<Rightarrow> bool" where
  "in_grid c \<longleftrightarrow> 0 \<le> x c \<and> x c < GRID_SIZE \<and> 0 \<le> y c \<and> y c < GRID_SIZE"

section \<open>Handlers\<close>

text \<open>The \<^verbatim>\<open>useState\<close> initialisers.\<close>

definition initialState :: "real stream \<Rightarrow> state option" where
  "initialState rnd =
     (case generateFood rnd INITIAL_SNAKE of
        None \<Rightarrow> None
      | Some f \<Rightarrow>
          Some \<lparr>snake = INITIAL_SNAKE, direction = INITIAL_DIRECTION, food = f,
                score = 0, gameOver = False, moveTick = 0\<rparr>)"

text \<open>
  \<^verbatim>\<open>handleKeyDown\<close>. \<open>keyDirection\<close> is its chain of \<^verbatim>\<open>includes\<close> tests, which leaves
  \<^verbatim>\<open>newDir\<close> undefined (\<open>None\<close>) for any other key; the handler then stores the new
  direction unless it is the opposite of \<^verbatim>\<open>directionRef.current\<close>.
\<close>

definition keyDirection :: "string \<Rightarrow> cell option" where
  "keyDirection key =
     (if key \<in> set [''ArrowUp'', ''w'', ''W''] then Some \<lparr>x = 0, y = -1\<rparr>
      else if key \<in> set [''ArrowDown'', ''s'', ''S''] then Some \<lparr>x = 0, y = 1\<rparr>
      else if key \<in> set [''ArrowLeft'', ''a'', ''A''] then Some \<lparr>x = -1, y = 0\<rparr>
      else if key \<in> set [''ArrowRight'', ''d'', ''D''] then Some \<lparr>x = 1, y = 0\<rparr>
      else None)"

definition handleKeyDown :: "state \<Rightarrow> string \<Rightarrow> state" where
  "handleKeyDown s key =
     (if gameOver s then s
      else case keyDirection key of
        None \<Rightarrow> s
      | Some newDir \<Rightarrow>
          if \<not> (x newDir = - x (direction s) \<and> y newDir = - y (direction s))
          then s\<lparr>direction := newDir\<rparr>
          else s)"

text \<open>The callback of \<^verbatim>\<open>setInterval\<close>.\<close>

definition intervalCallback :: "state \<Rightarrow> state" where
  "intervalCallback s = s\<lparr>moveTick := moveTick s + 1\<rparr>"

text \<open>The effect on \<^verbatim>\<open>[moveTick]\<close>: one step of the snake.\<close>

definition moveTickEffect :: "real stream \<Rightarrow> state \<Rightarrow> (error + TransitionResult \<times> state) option" where
  "moveTickEffect rnd s =
     (if gameOver s then Some (Inr (Noop, s))
      else case snake s of
        [] \<Rightarrow> Some (Inl TypeError)
      | h # _ \<Rightarrow>
          let newSnake = snake s;
              nextHead = \<lparr>x = x h + x (direction s), y = y h + y (direction s)\<rparr>
          in if x nextHead < 0 \<or> y nextHead < 0 \<or>
                x nextHead \<ge> GRID_SIZE \<or> y nextHead \<ge> GRID_SIZE \<or>
                list_ex (\<lambda>segment. x segment = x nextHead \<and> y segment = y nextHead) newSnake
             then Some (Inr (Crashed, s\<lparr>gameOver := True\<rparr>))
             else
               let newSnake = nextHead # newSnake
               in if x nextHead = x (food s) \<and> y nextHead = y (food s)
                  then (case generateFood rnd newSnake of
                          None \<Rightarrow> None
                        | Some f \<Rightarrow>
                            Some (Inr (Ate, s\<lparr>score := score s + 1, food := f, snake := newSnake\<rparr>)))
                  else Some (Inr (Moved, s\<lparr>snake := butlast newSnake\<rparr>)))"

definition handleRestart :: "real stream \<Rightarrow> state \<Rightarrow> state option" where
  "handleRestart rnd s =
     (case generateFood rnd INITIAL_SNAKE of
        None \<Rightarrow> None
      | Some f \<Rightarrow>
          Some (s\<lparr>snake := INITIAL_SNAKE, direction := INITIAL_DIRECTION, food := f,
                  score := 0, gameOver := False, moveTick := 0\<rparr>))"

text \<open>
  The states the component can be in: the initial one, and every state a handler produces
  from one of them, for any values \<^verbatim>\<open>Math.random\<close> may return.
\<close>

inductive reachable :: "state \<Rightarrow> bool" where
  r_init: "random_source rnd \<Longrightarrow> initialState rnd = Some s \<Longrightarrow> reachable s"
| r_key: "reachable s \<Longrightarrow> reachable (handleKeyDown s key)"
| r_interval: "reachable s \<Longrightarrow> reachable (intervalCallback s)"
| r_tick: "reachable s \<Longrightarrow> random_source rnd \<Longrightarrow>
           moveTickEffect rnd s = Some (Inr (r, s')) \<Longrightarrow> reachable s'"
| r_restart: "reachable s \<Longrightarrow> random_source rnd \<Longrightarrow>
              handleRestart rnd s = Some s' \<Longrightarrow> reachable s'"

section \<open>Notions used to state the properties\<close>

text \<open>\<^verbatim>\<open>nextHead\<close> of the movement effect: the head moved one step in the direction.\<close>

definition advance :: "cell \<Rightarrow> cell \<Rightarrow> cell" where
  "advance h d = \<lparr>x = x h + x d, y = y h + y d\<rparr>"

text \<open>
  The collision condition in the words of section 4.2 of the specification: the next head
  is off the grid, or it is a cell of the current body (tail included).
\<close>

definition spec_collision :: "cell list \<Rightarrow> cell \<Rightarrow> bool" where
  "spec_collision body c \<longleftrightarrow>
     x c < 0 \<or> x c \<ge> GRID_SIZE \<or> y c < 0 \<or> y c \<ge> GRID_SIZE \<or> c \<in> set body"

text \<open>Every cell of the grid, row by row.\<close>

definition full_grid :: "cell list" where
  "full_grid = concat (map (\<lambda>i. map (\<lambda>j. \<lparr>x = i, y = j\<rparr>) [0..GRID_SIZE - 1]) [0..GRID_SIZE - 1])"


section \<open>Properties of the food placement loop\<close>

text \<open>Two cells are equal exactly when both coordinates are, which is what the source compares.\<close>

lemma cell_eq_iff: "(a::cell) = b \<longleftrightarrow> x a = x b \<and> y a = y b"
  by (cases a, cases b) simp

lemma list_ex_cell: "list_ex (\<lambda>seg. x seg = x c \<and> y seg = y c) occ \<longleftrightarrow> (c::cell) \<in> set occ"
  by (induction occ) (auto simp: cell_eq_iff)

lemma candidate_0:
  "candidate rnd 0 = \<lparr>x = \<lfloor>shd rnd * of_int GRID_SIZE\<rfloor>, y = \<lfloor>shd (stl rnd) * of_int GRID_SIZE\<rfloor>\<rparr>"
  by (simp add: candidate_def)

lemma candidate_Suc: "candidate rnd (Suc k) = candidate (stl (stl rnd)) k"
  by (simp add: candidate_def)

lemma generateFood_unfold:
  "generateFood rnd occ =
     (if candidate rnd 0 \<notin> set occ then Some (candidate rnd 0)
      else generateFood (stl (stl rnd)) occ)"
  by (subst generateFood.simps) (simp add: Let_def list_ex_cell candidate_0)

lemma generateFood_first_free:
  "candidate rnd k \<notin> set occ \<Longrightarrow> (\<forall>j<k. candidate rnd j \<in> set occ) \<Longrightarrow>
   generateFood rnd occ = Some (candidate rnd k)"
proof (induction k arbitrary: rnd)
  case 0
  then show ?case by (subst generateFood_unfold) simp
next
  case (Suc k)
  have first: "candidate rnd 0 \<in> set occ" using Suc.prems(2) by blast
  have "generateFood (stl (stl rnd)) occ = Some (candidate (stl (stl rnd)) k)"
  proof (rule Suc.IH)
    show "candidate (stl (stl rnd)) k \<notin> set occ"
      using Suc.prems(1) by (simp add: candidate_Suc)
    show "\<forall>j<k. candidate (stl (stl rnd)) j \<in> set occ"
    proof (intro allI impI)
      fix j assume "j < k"
      then have "candidate rnd (Suc j) \<in> set occ" using Suc.prems(2) by simp
      then show "candidate (stl (stl rnd)) j \<in> set occ" by (simp add: candidate_Suc)
    qed
  qed
  with first show ?case
    by (subst generateFood_unfold) (simp add: candidate_Suc)
qed

lemma generateFood_Some_D:
  "generateFood rnd occ = Some c \<Longrightarrow>
   \<exists>k. c = candidate rnd k \<and> c \<notin> set occ \<and> (\<forall>j<k. candidate rnd j \<in> set occ)"
proof (induction rule: generateFood.raw_induct[rotated 1, consumes 1])
  case (1 gf rnd occ c)
  show ?case
  proof (cases "candidate rnd 0 \<in> set occ")
    case False
    with 1(2) have "c = candidate rnd 0"
      by (simp add: Let_def list_ex_cell candidate_0)
    with False show ?thesis by auto
  next
    case True
    with 1(2) have "gf (stl (stl rnd)) occ = Some c"
      by (simp add: Let_def list_ex_cell candidate_0)
    from 1(1)[OF this] obtain k where k: "c = candidate (stl (stl rnd)) k" "c \<notin> set occ"
      "\<forall>j<k. candidate (stl (stl rnd)) j \<in> set occ" by blast
    have "\<forall>j<Suc k. candidate rnd j \<in> set occ"
    proof (intro allI impI)
      fix j assume "j < Suc k"
      then show "candidate rnd j \<in> set occ"
        using True k(3) by (cases j) (simp_all add: candidate_Suc)
    qed
    with k(1,2) show ?thesis
      by (intro exI[of _ "Suc k"]) (simp add: candidate_Suc)
  qed
qed

lemma generateFood_returns_iff:
  "(\<exists>c. generateFood rnd occ = Some c) \<longleftrightarrow> (\<exists>k. candidate rnd k \<notin> set occ)"
proof
  assume "\<exists>c. generateFood rnd occ = Some c"
  then show "\<exists>k. candidate rnd k \<notin> set occ" using generateFood_Some_D by blast
next
  assume ex: "\<exists>k. candidate rnd k \<notin> set occ"
  define k where "k = (LEAST k. candidate rnd k \<notin> set occ)"
  have "candidate rnd k \<notin> set occ" unfolding k_def using ex by (rule LeastI_ex)
  moreover have "\<forall>j<k. candidate rnd j \<in> set occ"
    unfolding k_def using not_less_Least by blast
  ultimately show "\<exists>c. generateFood rnd occ = Some c"
    using generateFood_first_free by blast
qed

lemma candidate_in_grid: "random_source rnd \<Longrightarrow> in_grid (candidate rnd k)"
proof -
  assume rs: "random_source rnd"
  have a: "shd (sdrop (2 * k) rnd) \<in> sset rnd"
    by (metis sdrop_simps(1) snth_sset)
  have b: "shd (stl (sdrop (2 * k) rnd)) \<in> sset rnd"
    by (metis sdrop_simps(1) sdrop_simps(2) snth_sset)
  have fl: "0 \<le> \<lfloor>r * 16\<rfloor> \<and> \<lfloor>r * 16\<rfloor> < 16" if "0 \<le> r" "r < 1" for r :: real
    using that by (simp add: floor_less_iff)
  from rs a b show ?thesis
    by (simp add: random_source_def in_grid_def candidate_def GRID_SIZE_def fl)
qed

lemma in_grid_full_grid: "in_grid c \<longleftrightarrow> c \<in> set full_grid"
  by (cases c) (auto simp: full_grid_def in_grid_def image_iff)

section \<open>The movement effect\<close>

text \<open>The effect on a running game with a head, branch by branch.\<close>

lemma moveTickEffect_running:
  assumes "\<not> gameOver s" and "snake s = h # t"
  shows "moveTickEffect rnd s =
     (if spec_collision (snake s) (advance h (direction s))
      then Some (Inr (Crashed, s\<lparr>gameOver := True\<rparr>))
      else if advance h (direction s) = food s
      then (case generateFood rnd (advance h (direction s) # snake s) of
              None \<Rightarrow> None
            | Some f \<Rightarrow> Some (Inr (Ate, s\<lparr>score := score s + 1, food := f,
                                         snake := advance h (direction s) # snake s\<rparr>)))
      else Some (Inr (Moved, s\<lparr>snake := advance h (direction s) # butlast (snake s)\<rparr>)))"
proof -
  have ex: "list_ex (\<lambda>segment. x segment = a \<and> y segment = b) occ \<longleftrightarrow> \<lparr>x = a, y = b\<rparr> \<in> set occ"
    for a b occ
    using list_ex_cell[of "\<lparr>x = a, y = b\<rparr>" occ] by simp
  have eq: "\<lparr>x = a, y = b\<rparr> = c \<longleftrightarrow> a = x c \<and> b = y c" for a b and c :: cell
    by (cases c) simp
  show ?thesis
    using assms
    unfolding moveTickEffect_def Let_def advance_def spec_collision_def ex
    by (auto simp: eq)
qed

section \<open>What the placement loop returns\<close>

lemma generateFood_free: "generateFood rnd occ = Some f \<Longrightarrow> f \<notin> set occ"
  using generateFood_Some_D by blast

lemma generateFood_in_grid:
  "random_source rnd \<Longrightarrow> generateFood rnd occ = Some f \<Longrightarrow> in_grid f"
  using generateFood_Some_D candidate_in_grid by blast

lemma generateFood_None_iff:
  "generateFood rnd occ = None \<longleftrightarrow> (\<forall>k. candidate rnd k \<in> set occ)"
  using generateFood_returns_iff[of rnd occ] by auto

lemma draw_of_cell:
  assumes "in_grid c"
  shows "random_source (of_int (x c) / 16 ## of_int (y c) / 16 ## sconst 0)"
    and "candidate (of_int (x c) / 16 ## of_int (y c) / 16 ## sconst 0) 0 = c"
  using assms by (simp_all add: random_source_def in_grid_def candidate_def GRID_SIZE_def)

lemma random_source_sconst_0: "random_source (sconst 0)"
  by (simp add: random_source_def)

section \<open>The handlers, case by case\<close>

lemma initialState_D:
  assumes "initialState rnd = Some s"
  obtains f where "generateFood rnd INITIAL_SNAKE = Some f"
    and "s = \<lparr>snake = INITIAL_SNAKE, direction = INITIAL_DIRECTION, food = f,
              score = 0, gameOver = False, moveTick = 0\<rparr>"
  using assms by (auto simp: initialState_def split: option.splits)

lemma handleRestart_D:
  assumes "handleRestart rnd s = Some s'"
  obtains f where "generateFood rnd INITIAL_SNAKE = Some f"
    and "s' = s\<lparr>snake := INITIAL_SNAKE, direction := INITIAL_DIRECTION, food := f,
                 score := 0, gameOver := False, moveTick := 0\<rparr>"
  using assms by (auto simp: handleRestart_def split: option.splits)

lemma handleKeyDown_frame:
  "snake (handleKeyDown s key) = snake s \<and> food (handleKeyDown s key) = food s \<and>
   score (handleKeyDown s key) = score s \<and> gameOver (handleKeyDown s key) = gameOver s"
  by (simp add: handleKeyDown_def split: option.splits)

lemma moveTickEffect_cases [consumes 1, case_names Noop Crashed Ate Moved]:
  assumes "moveTickEffect rnd s = Some (Inr (r, s'))"
  obtains "r = Noop" "s' = s"
  | "r = Crashed" "s' = s\<lparr>gameOver := True\<rparr>"
  | h t f where "r = Ate" "snake s = h # t" "advance h (direction s) \<notin> set (snake s)"
      "generateFood rnd (advance h (direction s) # snake s) = Some f"
      "s' = s\<lparr>score := score s + 1, food := f, snake := advance h (direction s) # snake s\<rparr>"
  | h t where "r = Moved" "snake s = h # t" "advance h (direction s) \<notin> set (snake s)"
      "advance h (direction s) \<noteq> food s"
      "s' = s\<lparr>snake := advance h (direction s) # butlast (snake s)\<rparr>"
proof (cases "gameOver s")
  case True
  with assms have "r = Noop" "s' = s" by (simp_all add: moveTickEffect_def)
  then show thesis by (rule that(1))
next
  case False
  show thesis
  proof (cases "snake s")
    case Nil
    with False assms show thesis by (simp add: moveTickEffect_def)
  next
    case (Cons h t)
    note run = assms[unfolded moveTickEffect_running[OF False Cons]]
    show thesis
    proof (cases "spec_collision (snake s) (advance h (direction s))")
      case True
      with run have "r = Crashed" "s' = s\<lparr>gameOver := True\<rparr>" by simp_all
      then show thesis by (rule that(2))
    next
      case free: False
      then have notin: "advance h (direction s) \<notin> set (snake s)"
        by (simp add: spec_collision_def)
      show thesis
      proof (cases "advance h (direction s) = food s")
        case True
        with run free obtain f where
          "generateFood rnd (advance h (direction s) # snake s) = Some f"
          "r = Ate"
          "s' = s\<lparr>score := score s + 1, food := f, snake := advance h (direction s) # snake s\<rparr>"
          by (auto split: option.splits)
        with Cons notin show thesis using that(3) by blast
      next
        case False
        with run free have "r = Moved"
          "s' = s\<lparr>snake := advance h (direction s) # butlast (snake s)\<rparr>" by simp_all
        with Cons notin False show thesis using that(4) by blast
      qed
    qed
  qed
qed

text \<open>A state of a real run: the first tick of a new game eats the food at (9, 8).\<close>

lemma reachable_after_meal:
  "reachable \<lparr>snake = [\<lparr>x = 9, y = 8\<rparr>, \<lparr>x = 8, y = 8\<rparr>, \<lparr>x = 7, y = 8\<rparr>, \<lparr>x = 6, y = 8\<rparr>],
      direction = \<lparr>x = 1, y = 0\<rparr>, food = \<lparr>x = 3, y = 4\<rparr>, score = 1,
      gameOver = False, moveTick = 0\<rparr>"
proof -
  have src0: "random_source (9 / 16 ## 1 / 2 ## sconst 0)"
    and src1: "random_source (3 / 16 ## 1 / 4 ## sconst 0)"
    by (simp_all add: random_source_def)
  have "initialState (9 / 16 ## 1 / 2 ## sconst 0) =
      Some \<lparr>snake = INITIAL_SNAKE, direction = INITIAL_DIRECTION, food = \<lparr>x = 9, y = 8\<rparr>,
            score = 0, gameOver = False, moveTick = 0\<rparr>"
    by (simp add: initialState_def generateFood.simps INITIAL_SNAKE_def GRID_SIZE_def)
  from r_init[OF src0 this]
  have start: "reachable \<lparr>snake = INITIAL_SNAKE, direction = INITIAL_DIRECTION,
      food = \<lparr>x = 9, y = 8\<rparr>, score = 0, gameOver = False, moveTick = 0\<rparr>" .
  have "moveTickEffect (3 / 16 ## 1 / 4 ## sconst 0)
      \<lparr>snake = INITIAL_SNAKE, direction = INITIAL_DIRECTION, food = \<lparr>x = 9, y = 8\<rparr>, score = 0,
       gameOver = False, moveTick = 0\<rparr> =
    Some (Inr (Ate,
      \<lparr>snake = [\<lparr>x = 9, y = 8\<rparr>, \<lparr>x = 8, y = 8\<rparr>, \<lparr>x = 7, y = 8\<rparr>, \<lparr>x = 6, y = 8\<rparr>],
       direction = \<lparr>x = 1, y = 0\<rparr>, food = \<lparr>x = 3, y = 4\<rparr>, score = 1,
       gameOver = False, moveTick = 0\<rparr>))"
    by (simp add: moveTickEffect_def INITIAL_SNAKE_def INITIAL_DIRECTION_def GRID_SIZE_def
        Let_def generateFood.simps)
  from r_tick[OF start src1 this] show ?thesis .
qed

text \<open>What the guard of \<open>handleKeyDown\<close> does ensure: one key press never stores the opposite of the stored direction.\<close>

lemma handleKeyDown_guard:
  assumes "direction s \<noteq> \<lparr>x = 0, y = 0\<rparr>"
  shows "\<not> (x (direction (handleKeyDown s key)) = - x (direction s) \<and>
            y (direction (handleKeyDown s key)) = - y (direction s))"
proof (cases "handleKeyDown s key = s")
  case True
  then show ?thesis using assms by (auto simp: cell_eq_iff)
next
  case False
  then show ?thesis
    by (auto simp: handleKeyDown_def split: if_splits option.splits)
qed

section \<open>The claims\<close>

text \<open>
  Claim C1. In a running game (the snake has a head), the movement effect takes its collision
  branch exactly when the next head, the head moved one step in the current direction, is
  off the \<open>GRID_SIZE\<close> by \<open>GRID_SIZE\<close> grid or is a cell of the current body. The
  body is the whole snake before the move, so stepping onto the cell the tail is about to
  leave is a crash as well.
\<close>

theorem tick_crashed_iff:
  assumes "\<not> gameOver s" and "snake s = h # t"
  shows "((\<exists>s'. moveTickEffect rnd s = Some (Inr (Crashed, s'))) \<longleftrightarrow>
            spec_collision (snake s) (advance h (direction s))) \<and>
         (advance h (direction s) = last (snake s) \<longrightarrow>
            moveTickEffect rnd s = Some (Inr (Crashed, s\<lparr>gameOver := True\<rparr>)))"
proof -
  have tail: "spec_collision (snake s) (advance h (direction s))"
    if "advance h (direction s) = last (snake s)"
  proof -
    have "last (snake s) \<in> set (snake s)" using assms(2) by simp
    with that show ?thesis by (simp add: spec_collision_def)
  qed
  show ?thesis
    using tail by (auto simp: moveTickEffect_running[OF assms] split: option.splits)
qed

theorem tick_crashed_iff_witness:
  "moveTickEffect (sconst 0)
     \<lparr>snake = [\<lparr>x = 5, y = 5\<rparr>, \<lparr>x = 5, y = 6\<rparr>, \<lparr>x = 6, y = 6\<rparr>, \<lparr>x = 6, y = 5\<rparr>],
      direction = \<lparr>x = 1, y = 0\<rparr>, food = \<lparr>x = 0, y = 0\<rparr>, score = 1,
      gameOver = False, moveTick = 7\<rparr> =
   Some (Inr (Crashed,
     \<lparr>snake = [\<lparr>x = 5, y = 5\<rparr>, \<lparr>x = 5, y = 6\<rparr>, \<lparr>x = 6, y = 6\<rparr>, \<lparr>x = 6, y = 5\<rparr>],
      direction = \<lparr>x = 1, y = 0\<rparr>, food = \<lparr>x = 0, y = 0\<rparr>, score = 1,
      gameOver = True, moveTick = 7\<rparr>))"
  using tick_crashed_iff[of
      "\<lparr>snake = [\<lparr>x = 5, y = 5\<rparr>, \<lparr>x = 5, y = 6\<rparr>, \<lparr>x = 6, y = 6\<rparr>, \<lparr>x = 6, y = 5\<rparr>],
        direction = \<lparr>x = 1, y = 0\<rparr>, food = \<lparr>x = 0, y = 0\<rparr>, score = 1,
        gameOver = False, moveTick = 7\<rparr>"
      "\<lparr>x = 5, y = 5\<rparr>" "[\<lparr>x = 5, y = 6\<rparr>, \<lparr>x = 6, y = 6\<rparr>, \<lparr>x = 6, y = 5\<rparr>]" "sconst 0"]
  by (simp add: advance_def)

text \<open>
  Claim C2 says that the direction used by a tick is never the opposite of the direction used
  by the tick before it, however many keys are pressed in between. The handler compares a
  key with the direction last stored, not with the direction of the last move, so the run
  below reverses the snake: after a move to the right, \<open>ArrowUp\<close> is stored (it is not
  opposite to right), then \<open>ArrowLeft\<close> is stored (it is not opposite to up), and the
  next tick moves left, onto the neck, and ends the game.
\<close>

theorem reversal_by_two_key_presses:
  "initialState (3 / 16 ## 1 / 4 ## sconst 0) =
     Some \<lparr>snake = [\<lparr>x = 8, y = 8\<rparr>, \<lparr>x = 7, y = 8\<rparr>, \<lparr>x = 6, y = 8\<rparr>],
           direction = \<lparr>x = 1, y = 0\<rparr>, food = \<lparr>x = 3, y = 4\<rparr>, score = 0,
           gameOver = False, moveTick = 0\<rparr> \<and>
   moveTickEffect (sconst 0)
     \<lparr>snake = [\<lparr>x = 8, y = 8\<rparr>, \<lparr>x = 7, y = 8\<rparr>, \<lparr>x = 6, y = 8\<rparr>],
      direction = \<lparr>x = 1, y = 0\<rparr>, food = \<lparr>x = 3, y = 4\<rparr>, score = 0,
      gameOver = False, moveTick = 0\<rparr> =
     Some (Inr (Moved,
       \<lparr>snake = [\<lparr>x = 9, y = 8\<rparr>, \<lparr>x = 8, y = 8\<rparr>, \<lparr>x = 7, y = 8\<rparr>],
        direction = \<lparr>x = 1, y = 0\<rparr>, food = \<lparr>x = 3, y = 4\<rparr>, score = 0,
        gameOver = False, moveTick = 0\<rparr>)) \<and>
   handleKeyDown
     \<lparr>snake = [\<lparr>x = 9, y = 8\<rparr>, \<lparr>x = 8, y = 8\<rparr>, \<lparr>x = 7, y = 8\<rparr>],
      direction = \<lparr>x = 1, y = 0\<rparr>, food = \<lparr>x = 3, y = 4\<rparr>, score = 0,
      gameOver = False, moveTick = 0\<rparr> ''ArrowUp'' =
     \<lparr>snake = [\<lparr>x = 9, y = 8\<rparr>, \<lparr>x = 8, y = 8\<rparr>, \<lparr>x = 7, y = 8\<rparr>],
      direction = \<lparr>x = 0, y = - 1\<rparr>, food = \<lparr>x = 3, y = 4\<rparr>, score = 0,
      gameOver = False, moveTick = 0\<rparr> \<and>
   handleKeyDown
     \<lparr>snake = [\<lparr>x = 9, y = 8\<rparr>, \<lparr>x = 8, y = 8\<rparr>, \<lparr>x = 7, y = 8\<rparr>],
      direction = \<lparr>x = 0, y = - 1\<rparr>, food = \<lparr>x = 3, y = 4\<rparr>, score = 0,
      gameOver = False, moveTick = 0\<rparr> ''ArrowLeft'' =
     \<lparr>snake = [\<lparr>x = 9, y = 8\<rparr>, \<lparr>x = 8, y = 8\<rparr>, \<lparr>x = 7, y = 8\<rparr>],
      direction = \<lparr>x = - 1, y = 0\<rparr>, food = \<lparr>x = 3, y = 4\<rparr>, score = 0,
      gameOver = False, moveTick = 0\<rparr> \<and>
   moveTickEffect (sconst 0)
     \<lparr>snake = [\<lparr>x = 9, y = 8\<rparr>, \<lparr>x = 8, y = 8\<rparr>, \<lparr>x = 7, y = 8\<rparr>],
      direction = \<lparr>x = - 1, y = 0\<rparr>, food = \<lparr>x = 3, y = 4\<rparr>, score = 0,
      gameOver = False, moveTick = 0\<rparr> =
     Some (Inr (Crashed,
       \<lparr>snake = [\<lparr>x = 9, y = 8\<rparr>, \<lparr>x = 8, y = 8\<rparr>, \<lparr>x = 7, y = 8\<rparr>],
        direction = \<lparr>x = - 1, y = 0\<rparr>, food = \<lparr>x = 3, y = 4\<rparr>, score = 0,
        gameOver = True, moveTick = 0\<rparr>))"
proof (intro conjI)
  show "initialState (3 / 16 ## 1 / 4 ## sconst 0) =
     Some \<lparr>snake = [\<lparr>x = 8, y = 8\<rparr>, \<lparr>x = 7, y = 8\<rparr>, \<lparr>x = 6, y = 8\<rparr>],
           direction = \<lparr>x = 1, y = 0\<rparr>, food = \<lparr>x = 3, y = 4\<rparr>, score = 0,
           gameOver = False, moveTick = 0\<rparr>"
    by (simp add: initialState_def generateFood.simps INITIAL_SNAKE_def INITIAL_DIRECTION_def
        GRID_SIZE_def)
qed (simp_all add: moveTickEffect_def handleKeyDown_def keyDirection_def GRID_SIZE_def Let_def)

text \<open>
  Claim C3. A tick that ends in the food branch puts the next head in front of the unchanged
  body, so the snake is one cell longer, adds one to the score, and sets the food to what
  \<open>generateFood\<close> returns for the new snake. A tick that ends in the ordinary branch
  changes neither the length of the snake nor the score.
\<close>

theorem tick_growth_law:
  "(moveTickEffect rnd s = Some (Inr (Ate, s')) \<longrightarrow>
      (\<exists>h t. snake s = h # t \<and> snake s' = advance h (direction s) # snake s) \<and>
      length (snake s') = length (snake s) + 1 \<and>
      score s' = score s + 1 \<and>
      generateFood rnd (snake s') = Some (food s')) \<and>
   (moveTickEffect rnd s = Some (Inr (Moved, s')) \<longrightarrow>
      length (snake s') = length (snake s) \<and> score s' = score s)"
proof (cases "gameOver s")
  case True
  then show ?thesis by (simp add: moveTickEffect_def)
next
  case False
  show ?thesis
  proof (cases "snake s")
    case Nil
    with False show ?thesis by (simp add: moveTickEffect_def)
  next
    case (Cons h t)
    show ?thesis
      unfolding moveTickEffect_running[OF False Cons]
      using Cons by (auto split: if_splits option.splits)
  qed
qed

theorem tick_growth_law_witness:
  "moveTickEffect (3 / 16 ## 1 / 4 ## sconst 0)
     \<lparr>snake = [\<lparr>x = 8, y = 8\<rparr>, \<lparr>x = 7, y = 8\<rparr>, \<lparr>x = 6, y = 8\<rparr>],
      direction = \<lparr>x = 1, y = 0\<rparr>, food = \<lparr>x = 9, y = 8\<rparr>, score = 0,
      gameOver = False, moveTick = 0\<rparr> =
   Some (Inr (Ate,
     \<lparr>snake = [\<lparr>x = 9, y = 8\<rparr>, \<lparr>x = 8, y = 8\<rparr>, \<lparr>x = 7, y = 8\<rparr>, \<lparr>x = 6, y = 8\<rparr>],
      direction = \<lparr>x = 1, y = 0\<rparr>, food = \<lparr>x = 3, y = 4\<rparr>, score = 1,
      gameOver = False, moveTick = 0\<rparr>)) \<and>
   length [\<lparr>x = 9, y = 8\<rparr>, \<lparr>x = 8, y = 8\<rparr>, \<lparr>x = 7, y = 8\<rparr>, \<lparr>x = 6, y = (8::int)\<rparr>] =
     length [\<lparr>x = 8, y = 8\<rparr>, \<lparr>x = 7, y = 8\<rparr>, \<lparr>x = 6, y = (8::int)\<rparr>] + 1 \<and>
   generateFood (3 / 16 ## 1 / 4 ## sconst 0)
     [\<lparr>x = 9, y = 8\<rparr>, \<lparr>x = 8, y = 8\<rparr>, \<lparr>x = 7, y = 8\<rparr>, \<lparr>x = 6, y = 8\<rparr>] =
     Some \<lparr>x = 3, y = 4\<rparr> \<and>
   moveTickEffect (sconst 0)
     \<lparr>snake = [\<lparr>x = 8, y = 8\<rparr>, \<lparr>x = 7, y = 8\<rparr>, \<lparr>x = 6, y = 8\<rparr>],
      direction = \<lparr>x = 0, y = 1\<rparr>, food = \<lparr>x = 9, y = 8\<rparr>, score = 0,
      gameOver = False, moveTick = 0\<rparr> =
   Some (Inr (Moved,
     \<lparr>snake = [\<lparr>x = 8, y = 9\<rparr>, \<lparr>x = 8, y = 8\<rparr>, \<lparr>x = 7, y = 8\<rparr>],
      direction = \<lparr>x = 0, y = 1\<rparr>, food = \<lparr>x = 9, y = 8\<rparr>, score = 0,
      gameOver = False, moveTick = 0\<rparr>)) \<and>
   length [\<lparr>x = 8, y = 9\<rparr>, \<lparr>x = 8, y = 8\<rparr>, \<lparr>x = 7, y = (8::int)\<rparr>] =
     length [\<lparr>x = 8, y = 8\<rparr>, \<lparr>x = 7, y = 8\<rparr>, \<lparr>x = 6, y = (8::int)\<rparr>]"
proof -
  have ate: "moveTickEffect (3 / 16 ## 1 / 4 ## sconst 0)
      \<lparr>snake = [\<lparr>x = 8, y = 8\<rparr>, \<lparr>x = 7, y = 8\<rparr>, \<lparr>x = 6, y = 8\<rparr>],
       direction = \<lparr>x = 1, y = 0\<rparr>, food = \<lparr>x = 9, y = 8\<rparr>, score = 0,
       gameOver = False, moveTick = 0\<rparr> =
    Some (Inr (Ate,
      \<lparr>snake = [\<lparr>x = 9, y = 8\<rparr>, \<lparr>x = 8, y = 8\<rparr>, \<lparr>x = 7, y = 8\<rparr>, \<lparr>x = 6, y = 8\<rparr>],
       direction = \<lparr>x = 1, y = 0\<rparr>, food = \<lparr>x = 3, y = 4\<rparr>, score = 1,
       gameOver = False, moveTick = 0\<rparr>))"
    by (simp add: moveTickEffect_def GRID_SIZE_def Let_def generateFood.simps)
  have moved: "moveTickEffect (sconst 0)
      \<lparr>snake = [\<lparr>x = 8, y = 8\<rparr>, \<lparr>x = 7, y = 8\<rparr>, \<lparr>x = 6, y = 8\<rparr>],
       direction = \<lparr>x = 0, y = 1\<rparr>, food = \<lparr>x = 9, y = 8\<rparr>, score = 0,
       gameOver = False, moveTick = 0\<rparr> =
    Some (Inr (Moved,
      \<lparr>snake = [\<lparr>x = 8, y = 9\<rparr>, \<lparr>x = 8, y = 8\<rparr>, \<lparr>x = 7, y = 8\<rparr>],
       direction = \<lparr>x = 0, y = 1\<rparr>, food = \<lparr>x = 9, y = 8\<rparr>, score = 0,
       gameOver = False, moveTick = 0\<rparr>))"
    by (simp add: moveTickEffect_def GRID_SIZE_def Let_def)
  show ?thesis
    using ate moved
      tick_growth_law[of "3 / 16 ## 1 / 4 ## sconst 0"
        "\<lparr>snake = [\<lparr>x = 8, y = 8\<rparr>, \<lparr>x = 7, y = 8\<rparr>, \<lparr>x = 6, y = 8\<rparr>],
          direction = \<lparr>x = 1, y = 0\<rparr>, food = \<lparr>x = 9, y = 8\<rparr>, score = 0,
          gameOver = False, moveTick = 0\<rparr>"
        "\<lparr>snake = [\<lparr>x = 9, y = 8\<rparr>, \<lparr>x = 8, y = 8\<rparr>, \<lparr>x = 7, y = 8\<rparr>, \<lparr>x = 6, y = 8\<rparr>],
          direction = \<lparr>x = 1, y = 0\<rparr>, food = \<lparr>x = 3, y = 4\<rparr>, score = 1,
          gameOver = False, moveTick = 0\<rparr>"]
      tick_growth_law[of "sconst 0"
        "\<lparr>snake = [\<lparr>x = 8, y = 8\<rparr>, \<lparr>x = 7, y = 8\<rparr>, \<lparr>x = 6, y = 8\<rparr>],
          direction = \<lparr>x = 0, y = 1\<rparr>, food = \<lparr>x = 9, y = 8\<rparr>, score = 0,
          gameOver = False, moveTick = 0\<rparr>"
        "\<lparr>snake = [\<lparr>x = 8, y = 9\<rparr>, \<lparr>x = 8, y = 8\<rparr>, \<lparr>x = 7, y = 8\<rparr>],
          direction = \<lparr>x = 0, y = 1\<rparr>, food = \<lparr>x = 9, y = 8\<rparr>, score = 0,
          gameOver = False, moveTick = 0\<rparr>"]
    by (simp add: advance_def)
qed

text \<open>
  Claim C4. A cell returned by \<open>generateFood\<close> is not in the list it was given, and the
  function does return one as soon as some draw of the random source is a free cell.
  Consequently the food is never a cell of the snake in any state the component reaches,
  in particular after every tick and every restart.
\<close>

theorem food_never_on_snake:
  "(generateFood rnd occ = Some f \<longrightarrow> f \<notin> set occ) \<and>
   ((\<exists>k. candidate rnd k \<notin> set occ) \<longrightarrow> (\<exists>f. generateFood rnd occ = Some f \<and> f \<notin> set occ)) \<and>
   (reachable s \<longrightarrow> food s \<notin> set (snake s))"
proof (intro conjI impI)
  assume "generateFood rnd occ = Some f"
  then show "f \<notin> set occ" by (rule generateFood_free)
next
  assume "\<exists>k. candidate rnd k \<notin> set occ"
  then obtain f where "generateFood rnd occ = Some f"
    using generateFood_returns_iff by blast
  then show "\<exists>f. generateFood rnd occ = Some f \<and> f \<notin> set occ"
    using generateFood_free by blast
next
  assume "reachable s"
  then show "food s \<notin> set (snake s)"
  proof (induction rule: reachable.induct)
    case (r_init rnd s)
    from r_init(2) show ?case
      by (rule initialState_D) (simp add: generateFood_free)
  next
    case (r_key s key)
    then show ?case by (simp add: handleKeyDown_frame)
  next
    case (r_interval s)
    then show ?case by (simp add: intervalCallback_def)
  next
    case (r_tick s rnd r s')
    from r_tick(3) show ?case
    proof (cases rule: moveTickEffect_cases)
      case (Ate h t f)
      from Ate(4) have "f \<notin> set (advance h (direction s) # snake s)"
        by (rule generateFood_free)
      with Ate(5) show ?thesis by simp
    next
      case (Moved h t)
      then show ?thesis using r_tick.IH by (auto dest: in_set_butlastD)
    qed (use r_tick.IH in simp_all)
  next
    case (r_restart s rnd s')
    from r_restart(3) show ?case
      by (rule handleRestart_D) (simp add: generateFood_free)
  qed
qed

theorem food_never_on_snake_witness:
  "generateFood (1 / 2 ## 1 / 2 ## 3 / 16 ## 1 / 4 ## sconst 0) INITIAL_SNAKE = Some \<lparr>x = 3, y = 4\<rparr> \<and>
   \<lparr>x = 3, y = 4\<rparr> \<notin> set INITIAL_SNAKE \<and>
   \<lparr>x = 3, y = 4\<rparr> \<notin> set [\<lparr>x = 9, y = 8\<rparr>, \<lparr>x = 8, y = 8\<rparr>, \<lparr>x = 7, y = 8\<rparr>, \<lparr>x = 6, y = 8\<rparr>]"
proof -
  have run: "generateFood (1 / 2 ## 1 / 2 ## 3 / 16 ## 1 / 4 ## sconst 0) INITIAL_SNAKE =
      Some \<lparr>x = 3, y = 4\<rparr>"
    by (simp add: generateFood.simps INITIAL_SNAKE_def GRID_SIZE_def)
  show ?thesis
    using food_never_on_snake[of "1 / 2 ## 1 / 2 ## 3 / 16 ## 1 / 4 ## sconst 0" INITIAL_SNAKE
        "\<lparr>x = 3, y = 4\<rparr>"
        "\<lparr>snake = [\<lparr>x = 9, y = 8\<rparr>, \<lparr>x = 8, y = 8\<rparr>, \<lparr>x = 7, y = 8\<rparr>, \<lparr>x = 6, y = 8\<rparr>],
          direction = \<lparr>x = 1, y = 0\<rparr>, food = \<lparr>x = 3, y = 4\<rparr>, score = 1,
          gameOver = False, moveTick = 0\<rparr>"]
      run reachable_after_meal
    by simp
qed

text \<open>Claim C5. In every reachable state the cells of the snake are pairwise different.\<close>

theorem snake_distinct: "reachable s \<Longrightarrow> distinct (snake s)"
proof (induction rule: reachable.induct)
  case (r_init rnd s)
  from r_init(2) show ?case
    by (rule initialState_D) (simp add: INITIAL_SNAKE_def)
next
  case (r_key s key)
  then show ?case by (simp add: handleKeyDown_frame)
next
  case (r_interval s)
  then show ?case by (simp add: intervalCallback_def)
next
  case (r_tick s rnd r s')
  from r_tick(3) show ?case
  proof (cases rule: moveTickEffect_cases)
    case (Moved h t)
    then show ?thesis
      using r_tick.IH by (auto simp: distinct_butlast dest: in_set_butlastD)
  qed (use r_tick.IH in simp_all)
next
  case (r_restart s rnd s')
  from r_restart(3) show ?case
    by (rule handleRestart_D) (simp add: INITIAL_SNAKE_def)
qed

theorem snake_distinct_witness:
  "distinct [\<lparr>x = 9, y = 8\<rparr>, \<lparr>x = 8, y = 8\<rparr>, \<lparr>x = 7, y = 8\<rparr>, \<lparr>x = 6, y = (8::int)\<rparr>]"
  using snake_distinct[OF reachable_after_meal] by simp

text \<open>
  Claim C6. When the next head is off the grid or on the body, the effect ends in the collision
  branch and the only field it changes is \<open>gameOver\<close>, which becomes true: snake, food and
  score (and direction and tick counter) keep their values. On the 16 by 16 grid a snake with
  its head at (15, 8) and direction (1, 0) crashes this way.
\<close>

theorem tick_crash_frame:
  assumes "\<not> gameOver s" and "snake s = h # t"
  shows "(spec_collision (snake s) (advance h (direction s)) \<longrightarrow>
            (\<exists>s'. moveTickEffect rnd s = Some (Inr (Crashed, s')) \<and> gameOver s' \<and>
                  snake s' = snake s \<and> food s' = food s \<and> score s' = score s \<and>
                  direction s' = direction s \<and> moveTick s' = moveTick s)) \<and>
         (GRID_SIZE = 16 \<and> h = \<lparr>x = 15, y = 8\<rparr> \<and> direction s = \<lparr>x = 1, y = 0\<rparr> \<longrightarrow>
            moveTickEffect rnd s = Some (Inr (Crashed, s\<lparr>gameOver := True\<rparr>)))"
  by (auto simp: moveTickEffect_running[OF assms] spec_collision_def advance_def)

theorem tick_crash_frame_witness:
  "moveTickEffect (sconst 0)
     \<lparr>snake = [\<lparr>x = 15, y = 8\<rparr>, \<lparr>x = 14, y = 8\<rparr>, \<lparr>x = 13, y = 8\<rparr>],
      direction = \<lparr>x = 1, y = 0\<rparr>, food = \<lparr>x = 3, y = 3\<rparr>, score = 0,
      gameOver = False, moveTick = 7\<rparr> =
   Some (Inr (Crashed,
     \<lparr>snake = [\<lparr>x = 15, y = 8\<rparr>, \<lparr>x = 14, y = 8\<rparr>, \<lparr>x = 13, y = 8\<rparr>],
      direction = \<lparr>x = 1, y = 0\<rparr>, food = \<lparr>x = 3, y = 3\<rparr>, score = 0,
      gameOver = True, moveTick = 7\<rparr>))"
  using tick_crash_frame[of
      "\<lparr>snake = [\<lparr>x = 15, y = 8\<rparr>, \<lparr>x = 14, y = 8\<rparr>, \<lparr>x = 13, y = 8\<rparr>],
        direction = \<lparr>x = 1, y = 0\<rparr>, food = \<lparr>x = 3, y = 3\<rparr>, score = 0,
        gameOver = False, moveTick = 7\<rparr>"
      "\<lparr>x = 15, y = 8\<rparr>" "[\<lparr>x = 14, y = 8\<rparr>, \<lparr>x = 13, y = 8\<rparr>]" "sconst 0"]
  by (simp add: GRID_SIZE_def)

text \<open>
  Claim C7. Once the game is over, the movement effect returns at once and a key press is
  dropped, both leaving every field of the state as it is. A restart is the one handler that
  leaves a game-over state: its result is a running game.
\<close>

theorem gameOver_absorbing:
  assumes "gameOver s"
  shows "moveTickEffect rnd s = Some (Inr (Noop, s)) \<and>
         handleKeyDown s key = s \<and>
         (\<forall>s'. handleRestart rnd s = Some s' \<longrightarrow> s' \<noteq> s \<and> \<not> gameOver s')"
proof -
  have fresh: "\<not> gameOver s'" if "handleRestart rnd s = Some s'" for s'
    using that by (auto simp: handleRestart_def split: option.splits)
  have "\<forall>s'. handleRestart rnd s = Some s' \<longrightarrow> s' \<noteq> s \<and> \<not> gameOver s'"
    using fresh assms by blast
  moreover have "moveTickEffect rnd s = Some (Inr (Noop, s))"
    using assms by (simp add: moveTickEffect_def)
  moreover have "handleKeyDown s key = s"
    using assms by (simp add: handleKeyDown_def)
  ultimately show ?thesis by blast
qed

theorem gameOver_absorbing_witness:
  "moveTickEffect (sconst 0)
     \<lparr>snake = [\<lparr>x = 15, y = 8\<rparr>, \<lparr>x = 14, y = 8\<rparr>, \<lparr>x = 13, y = 8\<rparr>],
      direction = \<lparr>x = 1, y = 0\<rparr>, food = \<lparr>x = 3, y = 3\<rparr>, score = 0,
      gameOver = True, moveTick = 7\<rparr> =
   Some (Inr (Noop,
     \<lparr>snake = [\<lparr>x = 15, y = 8\<rparr>, \<lparr>x = 14, y = 8\<rparr>, \<lparr>x = 13, y = 8\<rparr>],
      direction = \<lparr>x = 1, y = 0\<rparr>, food = \<lparr>x = 3, y = 3\<rparr>, score = 0,
      gameOver = True, moveTick = 7\<rparr>)) \<and>
   handleKeyDown
     \<lparr>snake = [\<lparr>x = 15, y = 8\<rparr>, \<lparr>x = 14, y = 8\<rparr>, \<lparr>x = 13, y = 8\<rparr>],
      direction = \<lparr>x = 1, y = 0\<rparr>, food = \<lparr>x = 3, y = 3\<rparr>, score = 0,
      gameOver = True, moveTick = 7\<rparr> ''ArrowUp'' =
     \<lparr>snake = [\<lparr>x = 15, y = 8\<rparr>, \<lparr>x = 14, y = 8\<rparr>, \<lparr>x = 13, y = 8\<rparr>],
      direction = \<lparr>x = 1, y = 0\<rparr>, food = \<lparr>x = 3, y = 3\<rparr>, score = 0,
      gameOver = True, moveTick = 7\<rparr>"
  using gameOver_absorbing[of
      "\<lparr>snake = [\<lparr>x = 15, y = 8\<rparr>, \<lparr>x = 14, y = 8\<rparr>, \<lparr>x = 13, y = 8\<rparr>],
        direction = \<lparr>x = 1, y = 0\<rparr>, food = \<lparr>x = 3, y = 3\<rparr>, score = 0,
        gameOver = True, moveTick = 7\<rparr>" "sconst 0" "''ArrowUp''"]
  by simp

text \<open>
  Claim C8. From any state, running or over, \<open>handleRestart\<close> returns (as soon as the random
  source draws a cell off the initial snake) a running game with score 0, the initial snake
  (8,8), (7,8), (6,8), direction (1,0), and the food that \<open>generateFood\<close> places for the
  initial snake: a cell of the grid that is not on the snake.
\<close>

theorem restart_resets:
  assumes "random_source rnd" and "\<exists>k. candidate rnd k \<notin> set INITIAL_SNAKE"
  shows "\<exists>s'. handleRestart rnd s = Some s' \<and> \<not> gameOver s' \<and> score s' = 0 \<and>
           snake s' = [\<lparr>x = 8, y = 8\<rparr>, \<lparr>x = 7, y = 8\<rparr>, \<lparr>x = 6, y = 8\<rparr>] \<and>
           direction s' = \<lparr>x = 1, y = 0\<rparr> \<and> moveTick s' = 0 \<and>
           generateFood rnd (snake s') = Some (food s') \<and>
           food s' \<notin> set (snake s') \<and> in_grid (food s')"
proof -
  from assms(2) obtain f where f: "generateFood rnd INITIAL_SNAKE = Some f"
    using generateFood_returns_iff by blast
  then have "f \<notin> set INITIAL_SNAKE" and "in_grid f"
    using generateFood_free generateFood_in_grid[OF assms(1)] by blast+
  with f show ?thesis
    by (simp add: handleRestart_def) (simp add: INITIAL_SNAKE_def INITIAL_DIRECTION_def)
qed

theorem restart_resets_witness:
  "handleRestart (1 / 2 ## 1 / 2 ## 3 / 16 ## 1 / 4 ## sconst 0)
     \<lparr>snake = [\<lparr>x = 15, y = 8\<rparr>, \<lparr>x = 14, y = 8\<rparr>, \<lparr>x = 13, y = 8\<rparr>, \<lparr>x = 12, y = 8\<rparr>],
      direction = \<lparr>x = 1, y = 0\<rparr>, food = \<lparr>x = 3, y = 3\<rparr>, score = 1,
      gameOver = True, moveTick = 7\<rparr> =
   Some \<lparr>snake = [\<lparr>x = 8, y = 8\<rparr>, \<lparr>x = 7, y = 8\<rparr>, \<lparr>x = 6, y = 8\<rparr>],
      direction = \<lparr>x = 1, y = 0\<rparr>, food = \<lparr>x = 3, y = 4\<rparr>, score = 0,
      gameOver = False, moveTick = 0\<rparr>"
proof -
  have src: "random_source (1 / 2 ## 1 / 2 ## 3 / 16 ## 1 / 4 ## sconst 0)"
    by (simp add: random_source_def)
  have food: "generateFood (1 / 2 ## 1 / 2 ## 3 / 16 ## 1 / 4 ## sconst 0)
      [\<lparr>x = 8, y = 8\<rparr>, \<lparr>x = 7, y = 8\<rparr>, \<lparr>x = 6, y = 8\<rparr>] = Some \<lparr>x = 3, y = 4\<rparr>"
    by (simp add: generateFood.simps GRID_SIZE_def)
  then have draw: "\<exists>k. candidate (1 / 2 ## 1 / 2 ## 3 / 16 ## 1 / 4 ## sconst 0) k \<notin> set INITIAL_SNAKE"
    using generateFood_returns_iff[of "1 / 2 ## 1 / 2 ## 3 / 16 ## 1 / 4 ## sconst 0" INITIAL_SNAKE]
    by (simp add: INITIAL_SNAKE_def)
  from restart_resets[OF src draw, of
      "\<lparr>snake = [\<lparr>x = 15, y = 8\<rparr>, \<lparr>x = 14, y = 8\<rparr>, \<lparr>x = 13, y = 8\<rparr>, \<lparr>x = 12, y = 8\<rparr>],
        direction = \<lparr>x = 1, y = 0\<rparr>, food = \<lparr>x = 3, y = 3\<rparr>, score = 1,
        gameOver = True, moveTick = 7\<rparr>"]
  obtain s' where s': "handleRestart (1 / 2 ## 1 / 2 ## 3 / 16 ## 1 / 4 ## sconst 0)
      \<lparr>snake = [\<lparr>x = 15, y = 8\<rparr>, \<lparr>x = 14, y = 8\<rparr>, \<lparr>x = 13, y = 8\<rparr>, \<lparr>x = 12, y = 8\<rparr>],
        direction = \<lparr>x = 1, y = 0\<rparr>, food = \<lparr>x = 3, y = 3\<rparr>, score = 1,
        gameOver = True, moveTick = 7\<rparr> = Some s'"
    and fields: "\<not> gameOver s'" "score s' = 0"
      "snake s' = [\<lparr>x = 8, y = 8\<rparr>, \<lparr>x = 7, y = 8\<rparr>, \<lparr>x = 6, y = 8\<rparr>]"
      "direction s' = \<lparr>x = 1, y = 0\<rparr>" "moveTick s' = 0"
      "generateFood (1 / 2 ## 1 / 2 ## 3 / 16 ## 1 / 4 ## sconst 0) (snake s') = Some (food s')"
    by blast
  from fields(3,6) food have "food s' = \<lparr>x = 3, y = 4\<rparr>" by simp
  with fields have "s' = \<lparr>snake = [\<lparr>x = 8, y = 8\<rparr>, \<lparr>x = 7, y = 8\<rparr>, \<lparr>x = 6, y = 8\<rparr>],
      direction = \<lparr>x = 1, y = 0\<rparr>, food = \<lparr>x = 3, y = 4\<rparr>, score = 0,
      gameOver = False, moveTick = 0\<rparr>"
    by (cases s') simp
  with s' show ?thesis by simp
qed

text \<open>
  Claim C9. If some cell of the grid is not occupied, there is a random source on which the
  loop of \<open>generateFood\<close> stops with a free cell; on any source it stops exactly when one
  of its draws is free. If every cell of the grid is occupied, it never returns.
\<close>

theorem generateFood_termination:
  "((\<exists>c. in_grid c \<and> c \<notin> set occ) \<longrightarrow>
      (\<exists>rnd. random_source rnd \<and> (\<exists>f. generateFood rnd occ = Some f \<and> f \<notin> set occ \<and> in_grid f))) \<and>
   ((\<exists>f. generateFood rnd occ = Some f) \<longleftrightarrow> (\<exists>k. candidate rnd k \<notin> set occ)) \<and>
   (random_source rnd \<and> (\<forall>c. in_grid c \<longrightarrow> c \<in> set occ) \<longrightarrow> generateFood rnd occ = None)"
proof (intro conjI impI)
  assume "\<exists>c. in_grid c \<and> c \<notin> set occ"
  then obtain c where c: "in_grid c" "c \<notin> set occ" by blast
  define src where "src = of_int (x c) / 16 ## of_int (y c) / 16 ## sconst (0::real)"
  have "random_source src" and cand: "candidate src 0 = c"
    unfolding src_def using draw_of_cell[OF c(1)] by simp_all
  moreover have "generateFood src occ = Some c"
    using generateFood_first_free[of src 0 occ] cand c(2) by simp
  ultimately show "\<exists>rnd. random_source rnd \<and>
      (\<exists>f. generateFood rnd occ = Some f \<and> f \<notin> set occ \<and> in_grid f)"
    using c by blast
next
  show "(\<exists>f. generateFood rnd occ = Some f) \<longleftrightarrow> (\<exists>k. candidate rnd k \<notin> set occ)"
    by (rule generateFood_returns_iff)
next
  assume "random_source rnd \<and> (\<forall>c. in_grid c \<longrightarrow> c \<in> set occ)"
  then have "\<forall>k. candidate rnd k \<in> set occ"
    using candidate_in_grid by blast
  then show "generateFood rnd occ = None"
    by (simp add: generateFood_None_iff)
qed

theorem generateFood_termination_witness:
  "(\<exists>rnd. random_source rnd \<and>
      (\<exists>f. generateFood rnd INITIAL_SNAKE = Some f \<and> f \<notin> set INITIAL_SNAKE \<and> in_grid f)) \<and>
   generateFood (sconst 0) full_grid = None"
proof -
  have free: "\<exists>c. in_grid c \<and> c \<notin> set INITIAL_SNAKE"
    by (rule exI[of _ "\<lparr>x = 0, y = 0\<rparr>"]) (simp add: in_grid_def GRID_SIZE_def INITIAL_SNAKE_def)
  have full: "random_source (sconst 0) \<and> (\<forall>c. in_grid c \<longrightarrow> c \<in> set full_grid)"
    by (simp add: random_source_sconst_0 in_grid_full_grid)
  show ?thesis
    using generateFood_termination[of INITIAL_SNAKE "sconst 0"] free
      generateFood_termination[of full_grid "sconst 0"] full
    by blast
qed

text \<open>
  Claim C10. In every reachable state the score is the length of the snake minus 3, the
  number of cells grown beyond the initial snake.
\<close>

theorem score_counts_growth: "reachable s \<Longrightarrow> score s = int (length (snake s)) - 3"
proof (induction rule: reachable.induct)
  case (r_init rnd s)
  from r_init(2) show ?case
    by (rule initialState_D) (simp add: INITIAL_SNAKE_def)
next
  case (r_key s key)
  then show ?case by (simp add: handleKeyDown_frame)
next
  case (r_interval s)
  then show ?case by (simp add: intervalCallback_def)
next
  case (r_tick s rnd r s')
  from r_tick(3) show ?case
    by (cases rule: moveTickEffect_cases) (use r_tick.IH in simp_all)
next
  case (r_restart s rnd s')
  from r_restart(3) show ?case
    by (rule handleRestart_D) (simp add: INITIAL_SNAKE_def)
qed

theorem score_counts_growth_witness:
  "score \<lparr>snake = [\<lparr>x = 9, y = 8\<rparr>, \<lparr>x = 8, y = 8\<rparr>, \<lparr>x = 7, y = 8\<rparr>, \<lparr>x = 6, y = 8\<rparr>],
      direction = \<lparr>x = 1, y = 0\<rparr>, food = \<lparr>x = 3, y = 4\<rparr>, score = 1,
      gameOver = False, moveTick = 0\<rparr> = int (length [\<lparr>x = 9, y = 8\<rparr>, \<lparr>x = 8, y = 8\<rparr>, \<lparr>x = 7, y = 8\<rparr>, \<lparr>x = 6, y = (8::int)\<rparr>]) - 3"
  using score_counts_growth[OF reachable_after_meal] by simp

end
